theory Spec2Isabelle
  imports Main
begin

section \<open>JavaScript values, errors and string helpers\<close>

text \<open>
  The values that travel through the models: query parameters, update payload values and
  the rows a query returns. A JS number is modelled as an integer (employee counts and
  placeholder indices are integers); an object is the list of its own enumerable
  properties in iteration order, which is the order \<^verbatim>\<open>Object.keys\<close> and
  \<^verbatim>\<open>Object.values\<close> both follow.
\<close>

datatype jsval =
    JUndefined
  | JNull
  | JNum int
  | JStr string
  | JArr "jsval list"
  | JObj "(string \<times> jsval) list"

type_synonym jsobj = "(string \<times> jsval) list"

text \<open>
  Modelled from the spec: the error classes of \<^verbatim>\<open>../expressError\<close>, which the sources
  import and throw but which is not among the source files. Each carries its message.
  \<open>StoreError\<close> stands for a failure raised by the query executor itself, which the
  model methods do not catch.
\<close>

datatype error =
    BadRequestError string
  | NotFoundError string
  | StoreError string

fun is_bad_request :: "error \<Rightarrow> bool" where
  "is_bad_request (BadRequestError _) = True"
| "is_bad_request _ = False"

fun is_not_found :: "error \<Rightarrow> bool" where
  "is_not_found (NotFoundError _) = True"
| "is_not_found _ = False"

text \<open>
  Decimal rendering of a non-negative integer, as a template literal renders an array
  length or index.
\<close>

definition digit_char :: "nat \<Rightarrow> char" where
  "digit_char d = ''0123456789'' ! d"

function string_of_nat :: "nat \<Rightarrow> string" where
  "string_of_nat n =
     (if n < 10 then [digit_char n]
      else string_of_nat (n div 10) @ [digit_char (n mod 10)])"
  by pat_completeness auto
termination
  by (relation "measure (\<lambda>n. n)") auto

declare string_of_nat.simps [simp del]

text \<open>\<^verbatim>\<open>Array.prototype.join\<close> on an array of strings.\<close>

fun join :: "string \<Rightarrow> string list \<Rightarrow> string" where
  "join sep [] = []"
| "join sep [x] = x"
| "join sep (x # y # ys) = x @ sep @ join sep (y # ys)"

text \<open>\<^verbatim>\<open>Array.prototype.map\<close> with the callback receiving element and index.\<close>

definition map_index :: "('a \<Rightarrow> nat \<Rightarrow> 'b) \<Rightarrow> 'a list \<Rightarrow> 'b list" where
  "map_index f xs = map (\<lambda>(idx, x). f x idx) (enumerate 0 xs)"

text \<open>
  The translation table is a JavaScript object whose property values are column names:
  strings. \<open>own\<close> holds its own properties and \<open>inherited\<close> the properties it gets
  from its prototype chain. A value that is not a string can only come from the chain (a
  built-in method, or the prototype itself); it is truthy, and it stands in the table as
  the text a template literal renders for it, which is not empty.
\<close>

record table =
  own :: "string \<rightharpoonup> string"
  inherited :: "string \<rightharpoonup> string"

text \<open>
  \<^verbatim>\<open>Object.prototype\<close>, from which a table written as an object literal inherits, as
  Node renders its members in a template literal: a built-in method as its native-code
  text, and \<^verbatim>\<open>__proto__\<close>, which reads the prototype itself, as an object.
\<close>

definition Object_prototype :: "string \<rightharpoonup> string" where
  "Object_prototype =
     Map.empty
      (''constructor'' \<mapsto> ''function Object() { [native code] }'',
       ''__defineGetter__'' \<mapsto> ''function __defineGetter__() { [native code] }'',
       ''__defineSetter__'' \<mapsto> ''function __defineSetter__() { [native code] }'',
       ''hasOwnProperty'' \<mapsto> ''function hasOwnProperty() { [native code] }'',
       ''__lookupGetter__'' \<mapsto> ''function __lookupGetter__() { [native code] }'',
       ''__lookupSetter__'' \<mapsto> ''function __lookupSetter__() { [native code] }'',
       ''isPrototypeOf'' \<mapsto> ''function isPrototypeOf() { [native code] }'',
       ''propertyIsEnumerable'' \<mapsto> ''function propertyIsEnumerable() { [native code] }'',
       ''toString'' \<mapsto> ''function toString() { [native code] }'',
       ''valueOf'' \<mapsto> ''function valueOf() { [native code] }'',
       ''__proto__'' \<mapsto> ''[object Object]'',
       ''toLocaleString'' \<mapsto> ''function toLocaleString() { [native code] }'')"

text \<open>An object literal \<^verbatim>\<open>{k1: v1, ...}\<close>: the listed properties are its own.\<close>

definition object_literal :: "(string \<rightharpoonup> string) \<Rightarrow> table" where
  "object_literal props = \<lparr>own = props, inherited = Object_prototype\<rparr>"

text \<open>
  The property read \<^verbatim>\<open>table[key]\<close>: an own property wins, the prototype chain is
  asked next, and a key found in neither reads \<^verbatim>\<open>undefined\<close>.
\<close>

definition property_read :: "table \<Rightarrow> string \<Rightarrow> string option" where
  "property_read t k = (case own t k of Some v \<Rightarrow> Some v | None \<Rightarrow> inherited t k)"

text \<open>
  \<^verbatim>\<open>v || dflt\<close> on the result of a property read: \<^verbatim>\<open>undefined\<close> and the empty
  string are falsy.
\<close>

definition lookup_or :: "string option \<Rightarrow> string \<Rightarrow> string" where
  "lookup_or v dflt = (case v of None \<Rightarrow> dflt | Some s \<Rightarrow> if s = [] then dflt else s)"


section \<open>helpers/sql.js\<close>

record update_sql =
  setCols :: string
  "values" :: "jsval list"

text \<open>
  \<^verbatim>\<open>sqlForPartialUpdate(dataToUpdate, jsToSql)\<close>. \<^verbatim>\<open>jsToSql[colName]\<close> is a
  property read, so it also finds what the table inherits.
\<close>

definition sqlForPartialUpdate :: "jsobj \<Rightarrow> table \<Rightarrow> error + update_sql" where
  \<open>sqlForPartialUpdate dataToUpdate jsToSql =
     (let keys = map fst dataToUpdate in
      if length keys = 0 then Inl (BadRequestError ''No data'')
      else
        let cols = map_index
              (\<lambda>colName idx.
                 ''"'' @ lookup_or (property_read jsToSql colName) colName @ ''"=$''
                 @ string_of_nat (idx + 1))
              keys
        in Inr \<lparr>setCols = join '', '' cols, values = map snd dataToUpdate\<rparr>)\<close>


section \<open>The query executor\<close>

text \<open>
  The models call \<^verbatim>\<open>db.query(sql, params)\<close> of \<^verbatim>\<open>../db\<close>, a client of the
  relational store that is not among the source files; it is taken as a parameter. A
  store answers a query with rows or with a failure message, and its answer may depend on
  the queries executed before. The state threaded through the models is the list of the
  queries executed so far, oldest first.
\<close>

type_synonym query = "string \<times> jsval list"

type_synonym db = "query list \<Rightarrow> query \<Rightarrow> string + jsobj list"

definition db_query :: "db \<Rightarrow> query list \<Rightarrow> string \<Rightarrow> jsval list \<Rightarrow> (error + jsobj list) \<times> query list" where
  "db_query db log sql params =
     ((case db log (sql, params) of Inl msg \<Rightarrow> Inl (StoreError msg) | Inr rows \<Rightarrow> Inr rows),
      log @ [(sql, params)])"

text \<open>
  A store for the examples: it answers the n-th query it receives with the n-th entry of a
  script, and with no rows once the script is used up.
\<close>

definition scripted_store :: "(string + jsobj list) list \<Rightarrow> db" where
  "scripted_store answers log q =
     (if length log < length answers then answers ! length log else Inr [])"


section \<open>models/company.js\<close>

text \<open>
  The file holds two listings of the class. \<^verbatim>\<open>create\<close>, \<^verbatim>\<open>update\<close> and
  \<^verbatim>\<open>remove\<close> are the same in both; \<^verbatim>\<open>findAll\<close> and the where-clause builder
  differ. The handle is a string; the other fields are passed to the store as they come.
\<close>

definition Company_create :: "db \<Rightarrow> query list \<Rightarrow> string \<Rightarrow> jsval \<Rightarrow> jsval \<Rightarrow> jsval \<Rightarrow> jsval \<Rightarrow> (error + jsval) \<times> query list" where
  \<open>Company_create db log handle name description numEmployees logoUrl =
     (case db_query db log
             ''SELECT handle\<newline>           FROM companies\<newline>           WHERE handle = $1''
             [JStr handle] of
        (Inl e, log1) \<Rightarrow> (Inl e, log1)
      | (Inr duplicateCheck, log1) \<Rightarrow>
          if duplicateCheck \<noteq> [] then (Inl (BadRequestError (''Duplicate company: '' @ handle)), log1)
          else
            (case db_query db log1
                    ''INSERT INTO companies(\<newline>          handle,\<newline>          name,\<newline>          description,\<newline>          num_employees,\<newline>          logo_url)\<newline>           VALUES\<newline>             ($1, $2, $3, $4, $5)\<newline>           RETURNING handle, name, description, num_employees AS "numEmployees", logo_url AS "logoUrl"''
                    [JStr handle, name, description, numEmployees, logoUrl] of
               (Inl e, log2) \<Rightarrow> (Inl e, log2)
             | (Inr rows, log2) \<Rightarrow>
                 (Inr (case rows of [] \<Rightarrow> JUndefined | company # _ \<Rightarrow> JObj company), log2)))\<close>

definition Company_update :: "db \<Rightarrow> query list \<Rightarrow> string \<Rightarrow> jsobj \<Rightarrow> (error + jsval) \<times> query list" where
  \<open>Company_update db log handle data =
     (case sqlForPartialUpdate data
             (object_literal
               (Map.empty(''numEmployees'' \<mapsto> ''num_employees'', ''logoUrl'' \<mapsto> ''logo_url''))) of
        Inl e \<Rightarrow> (Inl e, log)
      | Inr r \<Rightarrow>
         (let handleVarIdx = ''$'' @ string_of_nat (length (values r) + 1);
              querySql = ''\<newline>      UPDATE companies\<newline>      SET '' @ setCols r
                @ ''\<newline>        WHERE handle = '' @ handleVarIdx
                @ ''\<newline>        RETURNING handle, name, description, num_employees AS "numEmployees", logo_url AS "logoUrl"''
          in case db_query db log querySql (values r @ [JStr handle]) of
               (Inl e, log1) \<Rightarrow> (Inl e, log1)
             | (Inr rows, log1) \<Rightarrow>
                 (case rows of
                    [] \<Rightarrow> (Inl (NotFoundError (''No company: '' @ handle)), log1)
                  | company # _ \<Rightarrow> (Inr (JObj company), log1))))\<close>

definition Company_remove :: "db \<Rightarrow> query list \<Rightarrow> string \<Rightarrow> (error + jsval) \<times> query list" where
  \<open>Company_remove db log handle =
     (case db_query db log
             ''DELETE\<newline>           FROM companies\<newline>           WHERE handle = $1\<newline>           RETURNING handle''
             [JStr handle] of
        (Inl e, log1) \<Rightarrow> (Inl e, log1)
      | (Inr rows, log1) \<Rightarrow>
          (case rows of
             [] \<Rightarrow> (Inl (NotFoundError (''No company: '' @ handle)), log1)
           | company # _ \<Rightarrow> (Inr JUndefined, log1)))\<close>

text \<open>
  The filter object, typed as the docstring of \<^verbatim>\<open>findAll\<close> types it:
  \<^verbatim>\<open>{name: string, minEmployees: number, maxEmployees: number}\<close>, each property
  optional. \<open>None\<close> is a property that is missing or \<^verbatim>\<open>undefined\<close>.
\<close>

record filters =
  name :: "string option"
  minEmployees :: "int option"
  maxEmployees :: "int option"

record where_sql =
  SQL :: string
  parameters :: "jsval list"

text \<open>\<^verbatim>\<open>a > b\<close> on optional numbers: \<^verbatim>\<open>undefined\<close> converts to NaN, and the comparison is false.\<close>

definition js_gt :: "int option \<Rightarrow> int option \<Rightarrow> bool" where
  "js_gt a b = (case (a, b) of (Some x, Some y) \<Rightarrow> x > y | _ \<Rightarrow> False)"

text \<open>First listing: \<^verbatim>\<open>_whereClauseBuilder\<close>, which numbers a placeholder by the length of \<^verbatim>\<open>values\<close>.\<close>

definition Company__whereClauseBuilder :: "filters \<Rightarrow> where_sql" where
  "Company__whereClauseBuilder filters =
     (let whereClauses = [];
          completedWhereClause = [];
          values = [];
          (values, whereClauses) =
            (case minEmployees filters of
               Some v \<Rightarrow>
                 (let values = values @ [JNum v]
                  in (values, whereClauses @ [''num_employees >= $'' @ string_of_nat (length values)]))
             | None \<Rightarrow> (values, whereClauses));
          (values, whereClauses) =
            (case maxEmployees filters of
               Some v \<Rightarrow>
                 (let values = values @ [JNum v]
                  in (values, whereClauses @ [''num_employees <= $'' @ string_of_nat (length values)]))
             | None \<Rightarrow> (values, whereClauses));
          (values, whereClauses) =
            (case name filters of
               Some v \<Rightarrow>
                 (let values = values @ [JStr (''_'' @ v @ ''%'')]
                  in (values, whereClauses @ [''name ILIKE $'' @ string_of_nat (length values)]))
             | None \<Rightarrow> (values, whereClauses));
          completedWhereClause =
            (if length whereClauses > 0 then ''WHERE '' @ join '' AND '' whereClauses
             else completedWhereClause)
      in \<lparr>SQL = completedWhereClause, parameters = values\<rparr>)"

text \<open>Second listing: \<^verbatim>\<open>whereClauseBuilder\<close>, which numbers a placeholder by a counter.\<close>

definition Company_whereClauseBuilder :: "filters \<Rightarrow> where_sql" where
  "Company_whereClauseBuilder filters =
     (let whereClauses = [];
          counter = (0::nat);
          values = [];
          (whereClauses, counter, values) =
            (case minEmployees filters of
               Some v \<Rightarrow>
                 (whereClauses @ [''num_employees >= $'' @ string_of_nat (counter + 1)],
                  counter + 1, values @ [JNum v])
             | None \<Rightarrow> (whereClauses, counter, values));
          (whereClauses, counter, values) =
            (case maxEmployees filters of
               Some v \<Rightarrow>
                 (whereClauses @ [''num_employees <= $'' @ string_of_nat (counter + 1)],
                  counter + 1, values @ [JNum v])
             | None \<Rightarrow> (whereClauses, counter, values));
          (whereClauses, counter, values) =
            (case name filters of
               Some v \<Rightarrow>
                 (whereClauses @ [''name ILIKE $'' @ string_of_nat (counter + 1)],
                  counter + 1, values @ [JStr (''_'' @ v @ ''%'')])
             | None \<Rightarrow> (whereClauses, counter, values))
      in \<lparr>SQL = join '' AND '' whereClauses, parameters = values\<rparr>)"

text \<open>\<^verbatim>\<open>findAll\<close> of the first listing.\<close>

definition Company_findAll :: "db \<Rightarrow> query list \<Rightarrow> filters \<Rightarrow> (error + jsval) \<times> query list" where
  \<open>Company_findAll db log searchFilters =
     (if js_gt (minEmployees searchFilters) (maxEmployees searchFilters)
      then (Inl (BadRequestError ''Min Employees must be less than Max Employees''), log)
      else
        let r = Company__whereClauseBuilder
                  \<lparr>name = name searchFilters,
                   minEmployees = minEmployees searchFilters,
                   maxEmployees = maxEmployees searchFilters\<rparr>
        in case db_query db log
                  (''SELECT handle,\<newline>              name,\<newline>              description,\<newline>              num_employees AS "numEmployees",\<newline>              logo_url AS "logoUrl"\<newline>          FROM companies\<newline>          ''
                    @ SQL r @ '' \<newline>          ORDER BY name'')
                  (parameters r) of
             (Inl e, log1) \<Rightarrow> (Inl e, log1)
           | (Inr rows, log1) \<Rightarrow> (Inr (JArr (map JObj rows)), log1))\<close>

text \<open>
  \<^verbatim>\<open>findAll\<close> of the second listing. It also looks at
  \<^verbatim>\<open>Object.keys(searchFilters)\<close>, which the typed properties do not determine: a
  property set to \<^verbatim>\<open>undefined\<close>, or one that is not a filter, is a key too. The keys
  are given beside the typed properties, as \<open>keys\<close>.
\<close>

definition Company_findAll2 :: "db \<Rightarrow> query list \<Rightarrow> string list \<Rightarrow> filters \<Rightarrow> (error + jsval) \<times> query list" where
  \<open>Company_findAll2 db log keys searchFilters =
     (if js_gt (minEmployees searchFilters) (maxEmployees searchFilters)
      then (Inl (BadRequestError ''Min Employees must be less than Max Employees''), log)
      else if length keys = 0
      then
        (case db_query db log
                ''SELECT handle,\<newline>                name,\<newline>                description,\<newline>                num_employees AS "numEmployees",\<newline>                logo_url AS "logoUrl"\<newline>           FROM companies\<newline>           ORDER BY name''
                [] of
           (Inl e, log1) \<Rightarrow> (Inl e, log1)
         | (Inr rows, log1) \<Rightarrow> (Inr (JArr (map JObj rows)), log1))
      else
        let r = Company_whereClauseBuilder
                  \<lparr>name = name searchFilters,
                   minEmployees = minEmployees searchFilters,
                   maxEmployees = maxEmployees searchFilters\<rparr>
        in case db_query db log
                  (''SELECT handle,\<newline>                name,\<newline>                description,\<newline>                num_employees AS "numEmployees",\<newline>                logo_url AS "logoUrl"\<newline>           FROM companies\<newline>           WHERE ''
                    @ SQL r @ ''\<newline>           ORDER BY name'')
                  (parameters r) of
             (Inl e, log1) \<Rightarrow> (Inl e, log1)
           | (Inr rows, log1) \<Rightarrow> (Inr (JArr (map JObj rows)), log1))\<close>


section \<open>Facts about the helpers\<close>

lemma string_of_nat_1: "string_of_nat (Suc 0) = ''1''"
  by (simp add: string_of_nat.simps digit_char_def)

lemma string_of_nat_2: "string_of_nat (Suc (Suc 0)) = ''2''"
  by (simp add: string_of_nat.simps digit_char_def)

lemma string_of_nat_3: "string_of_nat (Suc (Suc (Suc 0))) = ''3''"
  by (simp add: string_of_nat.simps digit_char_def)




section \<open>The partial-update builder\<close>

text \<open>
  Claim C3. \<^verbatim>\<open>sqlForPartialUpdate\<close> fails exactly when the update mapping is empty, and
  the failure is the bad-request error with the message "No data", whatever the
  translation table.
\<close>

theorem sqlForPartialUpdate_no_data:
  "(sqlForPartialUpdate dataToUpdate jsToSql = Inl (BadRequestError ''No data'')) = (dataToUpdate = [])
   \<and> isl (sqlForPartialUpdate dataToUpdate jsToSql) = (dataToUpdate = [])"
  by (simp add: sqlForPartialUpdate_def Let_def)

theorem sqlForPartialUpdate_no_data_witness:
  "sqlForPartialUpdate []
       (object_literal (Map.empty(''firstName'' \<mapsto> ''first_name'', ''age'' \<mapsto> ''age'')))
     = Inl (BadRequestError ''No data'')
   \<and> \<not> isl (sqlForPartialUpdate [(''firstName'', JStr ''Aliya''), (''age'', JNum 32)]
               (object_literal (Map.empty(''firstName'' \<mapsto> ''first_name'', ''age'' \<mapsto> ''age''))))"
  using sqlForPartialUpdate_no_data
      [of "[]" "object_literal (Map.empty(''firstName'' \<mapsto> ''first_name'', ''age'' \<mapsto> ''age''))"]
    sqlForPartialUpdate_no_data
      [of "[(''firstName'', JStr ''Aliya''), (''age'', JNum 32)]"
          "object_literal (Map.empty(''firstName'' \<mapsto> ''first_name'', ''age'' \<mapsto> ''age''))"]
  by simp


lemma lookup_or_property_read:
  "lookup_or (property_read t k) k =
     (case own t k of
        Some c \<Rightarrow> if c = [] then k else c
      | None \<Rightarrow> (case inherited t k of Some c \<Rightarrow> if c = [] then k else c | None \<Rightarrow> k))"
  by (simp add: lookup_or_def property_read_def split: option.split)





section \<open>The where-clause builders\<close>

lemma name_pattern_neq_raw: "''_'' @ n @ ''%'' \<noteq> n"
proof
  assume "''_'' @ n @ ''%'' = n"
  then have "length (''_'' @ n @ ''%'') = length n" by simp
  then show False by simp
qed

text \<open>
  Claim C2, as amended. Both builders take the conditions in the fixed order
  \<^verbatim>\<open>minEmployees\<close>, \<^verbatim>\<open>maxEmployees\<close>, \<^verbatim>\<open>name\<close>: the values are those of
  the filters that are present, in that order, and the clause joins by " AND " the
  conditions of the present filters, in that order, each ending in its position counted
  from 1. \<^verbatim>\<open>whereClauseBuilder\<close> returns that clause as it is, and
  \<^verbatim>\<open>_whereClauseBuilder\<close> puts "WHERE " before it when it is not empty. With all
  three present the clauses and values are the ones of the last two conjuncts.
\<close>

theorem whereClauseBuilder_fixed_order:
  "parameters (Company_whereClauseBuilder f) =
     (case minEmployees f of None \<Rightarrow> [] | Some v \<Rightarrow> [JNum v])
     @ (case maxEmployees f of None \<Rightarrow> [] | Some v \<Rightarrow> [JNum v])
     @ (case name f of None \<Rightarrow> [] | Some v \<Rightarrow> [JStr (''_'' @ v @ ''%'')])
   \<and> SQL (Company_whereClauseBuilder f) =
       join '' AND ''
         (map_index (\<lambda>c i. c @ string_of_nat (i + 1))
            ((case minEmployees f of None \<Rightarrow> [] | Some v \<Rightarrow> [''num_employees >= $''])
             @ (case maxEmployees f of None \<Rightarrow> [] | Some v \<Rightarrow> [''num_employees <= $''])
             @ (case name f of None \<Rightarrow> [] | Some v \<Rightarrow> [''name ILIKE $''])))
   \<and> parameters (Company__whereClauseBuilder f) = parameters (Company_whereClauseBuilder f)
   \<and> SQL (Company__whereClauseBuilder f) =
       (if parameters (Company__whereClauseBuilder f) = [] then []
        else ''WHERE '' @ SQL (Company_whereClauseBuilder f))
   \<and> Company_whereClauseBuilder \<lparr>name = Some ''2'', minEmployees = Some 1, maxEmployees = Some 2\<rparr>
       = \<lparr>SQL = ''num_employees >= $1 AND num_employees <= $2 AND name ILIKE $3'',
          parameters = [JNum 1, JNum 2, JStr ''_2%'']\<rparr>
   \<and> Company__whereClauseBuilder \<lparr>name = Some ''2'', minEmployees = Some 1, maxEmployees = Some 2\<rparr>
       = \<lparr>SQL = ''WHERE num_employees >= $1 AND num_employees <= $2 AND name ILIKE $3'',
          parameters = [JNum 1, JNum 2, JStr ''_2%'']\<rparr>"
proof (intro conjI)
  show "parameters (Company_whereClauseBuilder f) =
     (case minEmployees f of None \<Rightarrow> [] | Some v \<Rightarrow> [JNum v])
     @ (case maxEmployees f of None \<Rightarrow> [] | Some v \<Rightarrow> [JNum v])
     @ (case name f of None \<Rightarrow> [] | Some v \<Rightarrow> [JStr (''_'' @ v @ ''%'')])"
    by (cases "name f"; cases "minEmployees f"; cases "maxEmployees f";
        simp add: Company_whereClauseBuilder_def Let_def)
  show "SQL (Company_whereClauseBuilder f) =
       join '' AND ''
         (map_index (\<lambda>c i. c @ string_of_nat (i + 1))
            ((case minEmployees f of None \<Rightarrow> [] | Some v \<Rightarrow> [''num_employees >= $''])
             @ (case maxEmployees f of None \<Rightarrow> [] | Some v \<Rightarrow> [''num_employees <= $''])
             @ (case name f of None \<Rightarrow> [] | Some v \<Rightarrow> [''name ILIKE $''])))"
    by (cases "name f"; cases "minEmployees f"; cases "maxEmployees f";
        simp add: Company_whereClauseBuilder_def Let_def map_index_def)
  show "parameters (Company__whereClauseBuilder f) = parameters (Company_whereClauseBuilder f)"
    by (cases "name f"; cases "minEmployees f"; cases "maxEmployees f";
        simp add: Company__whereClauseBuilder_def Company_whereClauseBuilder_def Let_def)
  show "SQL (Company__whereClauseBuilder f) =
       (if parameters (Company__whereClauseBuilder f) = [] then []
        else ''WHERE '' @ SQL (Company_whereClauseBuilder f))"
    by (cases "name f"; cases "minEmployees f"; cases "maxEmployees f";
        simp add: Company__whereClauseBuilder_def Company_whereClauseBuilder_def Let_def)
  show "Company_whereClauseBuilder \<lparr>name = Some ''2'', minEmployees = Some 1, maxEmployees = Some 2\<rparr>
       = \<lparr>SQL = ''num_employees >= $1 AND num_employees <= $2 AND name ILIKE $3'',
          parameters = [JNum 1, JNum 2, JStr ''_2%'']\<rparr>"
    by (simp add: Company_whereClauseBuilder_def Let_def string_of_nat_1 string_of_nat_2 string_of_nat_3)
  show "Company__whereClauseBuilder \<lparr>name = Some ''2'', minEmployees = Some 1, maxEmployees = Some 2\<rparr>
       = \<lparr>SQL = ''WHERE num_employees >= $1 AND num_employees <= $2 AND name ILIKE $3'',
          parameters = [JNum 1, JNum 2, JStr ''_2%'']\<rparr>"
    by (simp add: Company__whereClauseBuilder_def Let_def string_of_nat_1 string_of_nat_2 string_of_nat_3)
qed

text \<open>
  The claim as first stated gives one exact clause for the builder; the clause of
  \<^verbatim>\<open>_whereClauseBuilder\<close> on that input is a different string, as its docstring says.
\<close>

theorem underscore_whereClauseBuilder_prefix_counterexample:
  "SQL (Company__whereClauseBuilder \<lparr>name = Some ''2'', minEmployees = Some 1, maxEmployees = Some 2\<rparr>)
     \<noteq> ''num_employees >= $1 AND num_employees <= $2 AND name ILIKE $3''"
  by (simp add: Company__whereClauseBuilder_def Let_def)

text \<open>
  Claim C4. When \<^verbatim>\<open>name\<close> is present, the clause of either builder ends in
  \<^verbatim>\<open>name ILIKE $k\<close> with k the number of values, the last value is the name between
  \<^verbatim>\<open>_\<close> and \<^verbatim>\<open>%\<close>, and neither the raw name nor the name between two
  \<^verbatim>\<open>%\<close> is among the values.
\<close>

theorem whereClauseBuilder_name_pattern:
  "name f = Some n \<longrightarrow>
     (\<exists>pre. SQL (Company_whereClauseBuilder f) =
              pre @ ''name ILIKE $'' @ string_of_nat (length (parameters (Company_whereClauseBuilder f))))
     \<and> (\<exists>pre. SQL (Company__whereClauseBuilder f) =
              pre @ ''name ILIKE $'' @ string_of_nat (length (parameters (Company__whereClauseBuilder f))))
     \<and> parameters (Company_whereClauseBuilder f) \<noteq> []
     \<and> last (parameters (Company_whereClauseBuilder f)) = JStr (''_'' @ n @ ''%'')
     \<and> JStr (''%'' @ n @ ''%'') \<notin> set (parameters (Company_whereClauseBuilder f))
     \<and> JStr n \<notin> set (parameters (Company_whereClauseBuilder f))
     \<and> parameters (Company__whereClauseBuilder f) = parameters (Company_whereClauseBuilder f)"
  using name_pattern_neq_raw [of n]
  by (cases "minEmployees f"; cases "maxEmployees f";
      simp add: Company__whereClauseBuilder_def Company_whereClauseBuilder_def Let_def)

theorem whereClauseBuilder_name_pattern_witness:
  "name \<lparr>name = Some ''2'', minEmployees = Some 1, maxEmployees = Some 2\<rparr> = Some ''2''
   \<and> last (parameters (Company_whereClauseBuilder
               \<lparr>name = Some ''2'', minEmployees = Some 1, maxEmployees = Some 2\<rparr>)) = JStr ''_2%''
   \<and> parameters (Company__whereClauseBuilder
               \<lparr>name = Some ''2'', minEmployees = Some 1, maxEmployees = Some 2\<rparr>)
       = [JNum 1, JNum 2, JStr ''_2%'']
   \<and> JStr ''2'' \<notin> set (parameters (Company_whereClauseBuilder
               \<lparr>name = Some ''2'', minEmployees = Some 1, maxEmployees = Some 2\<rparr>))
   \<and> JStr ''%2%'' \<notin> set (parameters (Company_whereClauseBuilder
               \<lparr>name = Some ''2'', minEmployees = Some 1, maxEmployees = Some 2\<rparr>))"
  using whereClauseBuilder_name_pattern
      [of "\<lparr>name = Some ''2'', minEmployees = Some 1, maxEmployees = Some 2\<rparr>" "''2''"]
  by (simp add: Company__whereClauseBuilder_def Company_whereClauseBuilder_def Let_def)

text \<open>
  Claim C5. \<^verbatim>\<open>whereClauseBuilder\<close> numbers the placeholders 1, 2, ... over the
  conditions it appends: the clause joins as many conditions as there are values, one per
  present filter, the i-th ending in \<^verbatim>\<open>$i\<close>. A lone \<^verbatim>\<open>maxEmployees\<close> gets
  \<^verbatim>\<open>$1\<close>, and no filter gives the empty clause and no value.
\<close>

theorem whereClauseBuilder_numbering:
  "(\<exists>conds. SQL (Company_whereClauseBuilder f) =
              join '' AND '' (map_index (\<lambda>c i. c @ ''$'' @ string_of_nat (i + 1)) conds)
      \<and> set conds \<subseteq> {''num_employees >= '', ''num_employees <= '', ''name ILIKE ''}
      \<and> length conds = length (parameters (Company_whereClauseBuilder f))
      \<and> length conds = (if minEmployees f = None then 0 else 1)
                        + (if maxEmployees f = None then 0 else 1)
                        + (if name f = None then 0 else 1))
   \<and> Company_whereClauseBuilder \<lparr>name = None, minEmployees = None, maxEmployees = Some 2\<rparr>
       = \<lparr>SQL = ''num_employees <= $1'', parameters = [JNum 2]\<rparr>
   \<and> Company_whereClauseBuilder \<lparr>name = None, minEmployees = None, maxEmployees = None\<rparr>
       = \<lparr>SQL = [], parameters = []\<rparr>"
proof (intro conjI)
  let ?conds = "(case minEmployees f of None \<Rightarrow> [] | Some v \<Rightarrow> [''num_employees >= ''])
             @ (case maxEmployees f of None \<Rightarrow> [] | Some v \<Rightarrow> [''num_employees <= ''])
             @ (case name f of None \<Rightarrow> [] | Some v \<Rightarrow> [''name ILIKE ''])"
  have "SQL (Company_whereClauseBuilder f) =
              join '' AND '' (map_index (\<lambda>c i. c @ ''$'' @ string_of_nat (i + 1)) ?conds)
      \<and> set ?conds \<subseteq> {''num_employees >= '', ''num_employees <= '', ''name ILIKE ''}
      \<and> length ?conds = length (parameters (Company_whereClauseBuilder f))
      \<and> length ?conds = (if minEmployees f = None then 0 else 1)
                        + (if maxEmployees f = None then 0 else 1)
                        + (if name f = None then 0 else 1)"
    by (cases "name f"; cases "minEmployees f"; cases "maxEmployees f";
        simp add: Company_whereClauseBuilder_def Let_def map_index_def)
  then show "\<exists>conds. SQL (Company_whereClauseBuilder f) =
              join '' AND '' (map_index (\<lambda>c i. c @ ''$'' @ string_of_nat (i + 1)) conds)
      \<and> set conds \<subseteq> {''num_employees >= '', ''num_employees <= '', ''name ILIKE ''}
      \<and> length conds = length (parameters (Company_whereClauseBuilder f))
      \<and> length conds = (if minEmployees f = None then 0 else 1)
                        + (if maxEmployees f = None then 0 else 1)
                        + (if name f = None then 0 else 1)"
    by blast
  show "Company_whereClauseBuilder \<lparr>name = None, minEmployees = None, maxEmployees = Some 2\<rparr>
       = \<lparr>SQL = ''num_employees <= $1'', parameters = [JNum 2]\<rparr>"
    by (simp add: Company_whereClauseBuilder_def Let_def string_of_nat_1)
  show "Company_whereClauseBuilder \<lparr>name = None, minEmployees = None, maxEmployees = None\<rparr>
       = \<lparr>SQL = [], parameters = []\<rparr>"
    by (simp add: Company_whereClauseBuilder_def Let_def)
qed

text \<open>
  Claim C10. The two builders return the same parameters. When a filter is present the
  clause of \<^verbatim>\<open>_whereClauseBuilder\<close> is "WHERE " followed by the clause of
  \<^verbatim>\<open>whereClauseBuilder\<close>; when none is, both clauses are empty.
\<close>

theorem whereClauseBuilder_variants:
  "parameters (Company__whereClauseBuilder f) = parameters (Company_whereClauseBuilder f)
   \<and> (name f \<noteq> None \<or> minEmployees f \<noteq> None \<or> maxEmployees f \<noteq> None \<longrightarrow>
        SQL (Company__whereClauseBuilder f) = ''WHERE '' @ SQL (Company_whereClauseBuilder f))
   \<and> (name f = None \<and> minEmployees f = None \<and> maxEmployees f = None \<longrightarrow>
        SQL (Company__whereClauseBuilder f) = [] \<and> SQL (Company_whereClauseBuilder f) = [])"
  by (cases "name f"; cases "minEmployees f"; cases "maxEmployees f";
      simp add: Company__whereClauseBuilder_def Company_whereClauseBuilder_def Let_def)

theorem whereClauseBuilder_variants_witness:
  "SQL (Company__whereClauseBuilder \<lparr>name = Some ''2'', minEmployees = None, maxEmployees = Some 2\<rparr>)
     = ''WHERE '' @ SQL (Company_whereClauseBuilder
                          \<lparr>name = Some ''2'', minEmployees = None, maxEmployees = Some 2\<rparr>)
   \<and> SQL (Company_whereClauseBuilder \<lparr>name = Some ''2'', minEmployees = None, maxEmployees = Some 2\<rparr>)
     = ''num_employees <= $1 AND name ILIKE $2''
   \<and> SQL (Company__whereClauseBuilder \<lparr>name = None, minEmployees = None, maxEmployees = None\<rparr>) = []
   \<and> SQL (Company_whereClauseBuilder \<lparr>name = None, minEmployees = None, maxEmployees = None\<rparr>) = []"
  using whereClauseBuilder_variants
      [of "\<lparr>name = Some ''2'', minEmployees = None, maxEmployees = Some 2\<rparr>"]
    whereClauseBuilder_variants
      [of "\<lparr>name = None, minEmployees = None, maxEmployees = None\<rparr>"]
  by (simp add: Company_whereClauseBuilder_def Let_def string_of_nat_1 string_of_nat_2)


section \<open>The model methods\<close>

text \<open>
  Claim C6. With both bounds present and \<^verbatim>\<open>minEmployees > maxEmployees\<close>, either
  listing of \<^verbatim>\<open>findAll\<close> fails with the bad-request error and its message, whatever
  the store, and the list of executed queries is returned as it was: no query is executed.
\<close>

theorem findAll_min_gt_max:
  "minEmployees f = Some lo \<and> maxEmployees f = Some hi \<and> lo > hi \<longrightarrow>
     Company_findAll db log f
       = (Inl (BadRequestError ''Min Employees must be less than Max Employees''), log)
     \<and> Company_findAll2 db log keys f
       = (Inl (BadRequestError ''Min Employees must be less than Max Employees''), log)"
  by (simp add: Company_findAll_def Company_findAll2_def js_gt_def)

theorem findAll_min_gt_max_witness:
  "Company_findAll (scripted_store [Inl ''unreachable''])
       [] \<lparr>name = None, minEmployees = Some 11, maxEmployees = Some 2\<rparr>
     = (Inl (BadRequestError ''Min Employees must be less than Max Employees''), [])
   \<and> Company_findAll2 (scripted_store [Inl ''unreachable''])
       [] [''minEmployees'', ''maxEmployees'']
       \<lparr>name = None, minEmployees = Some 11, maxEmployees = Some 2\<rparr>
     = (Inl (BadRequestError ''Min Employees must be less than Max Employees''), [])"
  using findAll_min_gt_max [of "\<lparr>name = None, minEmployees = Some 11, maxEmployees = Some 2\<rparr>" 11 2
      "scripted_store [Inl ''unreachable'']" "[]" "[''minEmployees'', ''maxEmployees'']"]
  by simp

text \<open>
  Claim C7. For a non-empty payload, \<^verbatim>\<open>update\<close> takes the SET clause from
  \<^verbatim>\<open>sqlForPartialUpdate\<close> with the Company table, executes one query whose text has
  that clause followed by \<^verbatim>\<open>WHERE handle = $(n+1)\<close>, n the number of fields, with
  the parameters \<^verbatim>\<open>values ++ [handle]\<close>; it fails with the not-found error exactly
  when the store answers with no row, and returns the first row otherwise. A failure of
  the store itself is passed on.
\<close>

theorem Company_update_query:
  \<open>data \<noteq> [] \<longrightarrow>
    (\<exists>r. sqlForPartialUpdate data
            (object_literal
               (Map.empty(''numEmployees'' \<mapsto> ''num_employees'', ''logoUrl'' \<mapsto> ''logo_url''))) = Inr r
       \<and> values r = map snd data
       \<and> (let q = (''\<newline>      UPDATE companies\<newline>      SET '' @ setCols r
                     @ ''\<newline>        WHERE handle = $'' @ string_of_nat (length data + 1)
                     @ ''\<newline>        RETURNING handle, name, description, num_employees AS "numEmployees", logo_url AS "logoUrl"'',
                   map snd data @ [JStr handle]);
               res = Company_update db log handle data
           in snd res = log @ [q]
              \<and> (fst res = Inl (NotFoundError (''No company: '' @ handle))) = (db log q = Inr [])
              \<and> (case fst res of Inl e \<Rightarrow> is_not_found e | Inr v \<Rightarrow> False) = (db log q = Inr [])
              \<and> (\<forall>company rest. db log q = Inr (company # rest) \<longrightarrow> fst res = Inr (JObj company))
              \<and> (\<forall>msg. db log q = Inl msg \<longrightarrow> fst res = Inl (StoreError msg))))\<close>
proof
  assume ne: "data \<noteq> []"
  obtain r where r: "sqlForPartialUpdate data
            (object_literal
               (Map.empty(''numEmployees'' \<mapsto> ''num_employees'', ''logoUrl'' \<mapsto> ''logo_url''))) = Inr r"
    and v: "values r = map snd data"
    using ne by (simp add: sqlForPartialUpdate_def Let_def)
  let ?q = \<open>(''\<newline>      UPDATE companies\<newline>      SET '' @ setCols r
                     @ ''\<newline>        WHERE handle = $'' @ string_of_nat (length data + 1)
                     @ ''\<newline>        RETURNING handle, name, description, num_employees AS "numEmployees", logo_url AS "logoUrl"'',
                   map snd data @ [JStr handle])\<close>
  have upd: "Company_update db log handle data =
     (case db log ?q of
        Inl msg \<Rightarrow> (Inl (StoreError msg), log @ [?q])
      | Inr rows \<Rightarrow>
          (case rows of
             [] \<Rightarrow> (Inl (NotFoundError (''No company: '' @ handle)), log @ [?q])
           | company # _ \<Rightarrow> (Inr (JObj company), log @ [?q])))"
    by (simp add: Company_update_def r v Let_def db_query_def split: sum.split list.split)
  show \<open>\<exists>r. sqlForPartialUpdate data
            (object_literal
               (Map.empty(''numEmployees'' \<mapsto> ''num_employees'', ''logoUrl'' \<mapsto> ''logo_url''))) = Inr r
       \<and> values r = map snd data
       \<and> (let q = (''\<newline>      UPDATE companies\<newline>      SET '' @ setCols r
                     @ ''\<newline>        WHERE handle = $'' @ string_of_nat (length data + 1)
                     @ ''\<newline>        RETURNING handle, name, description, num_employees AS "numEmployees", logo_url AS "logoUrl"'',
                   map snd data @ [JStr handle]);
               res = Company_update db log handle data
           in snd res = log @ [q]
              \<and> (fst res = Inl (NotFoundError (''No company: '' @ handle))) = (db log q = Inr [])
              \<and> (case fst res of Inl e \<Rightarrow> is_not_found e | Inr v \<Rightarrow> False) = (db log q = Inr [])
              \<and> (\<forall>company rest. db log q = Inr (company # rest) \<longrightarrow> fst res = Inr (JObj company))
              \<and> (\<forall>msg. db log q = Inl msg \<longrightarrow> fst res = Inl (StoreError msg)))\<close>
    apply (rule exI [of _ r])
    apply (simp only: Let_def upd r v)
    apply (cases "db log ?q")
     apply simp
    subgoal for rows by (cases rows) simp_all
    done
qed


theorem Company_update_query_witness:
  \<open>[(''name'', JStr ''New''), (''numEmployees'', JNum 10)] \<noteq> []
   \<and> Company_update (scripted_store [Inr [[(''handle'', JStr ''c1''), (''name'', JStr ''New'')]]]) []
        ''c1'' [(''name'', JStr ''New''), (''numEmployees'', JNum 10)]
      = (Inr (JObj [(''handle'', JStr ''c1''), (''name'', JStr ''New'')]),
         [(''\<newline>      UPDATE companies\<newline>      SET "name"=$1, "num_employees"=$2\<newline>        WHERE handle = $3\<newline>        RETURNING handle, name, description, num_employees AS "numEmployees", logo_url AS "logoUrl"'',
           [JStr ''New'', JNum 10, JStr ''c1''])])
   \<and> fst (Company_update (scripted_store [Inr []]) []
        ''nope'' [(''name'', JStr ''New''), (''numEmployees'', JNum 10)])
      = Inl (NotFoundError ''No company: nope'')\<close>
  using Company_update_query [of "[(''name'', JStr ''New''), (''numEmployees'', JNum 10)]" "''c1''"
      "scripted_store [Inr [[(''handle'', JStr ''c1''), (''name'', JStr ''New'')]]]" "[]"]
  by (simp add: Company_update_def sqlForPartialUpdate_def map_index_def lookup_or_property_read
        object_literal_def Object_prototype_def
        db_query_def scripted_store_def string_of_nat_1 string_of_nat_2 string_of_nat_3)

text \<open>
  Claim C8, as amended. \<^verbatim>\<open>create\<close> first selects the handle. When the store
  answers with a row, it fails with the bad-request error "Duplicate company: " and the
  handle, and executes nothing more. When the store answers with no row, it executes the
  INSERT with the five fields as parameters and returns the first row the INSERT returns.
  It fails with a bad-request error exactly in the first case.
\<close>

theorem Company_create_duplicate_is_bad_request:
  \<open>(let q1 = (''SELECT handle\<newline>           FROM companies\<newline>           WHERE handle = $1'', [JStr handle]);
        q2 = (''INSERT INTO companies(\<newline>          handle,\<newline>          name,\<newline>          description,\<newline>          num_employees,\<newline>          logo_url)\<newline>           VALUES\<newline>             ($1, $2, $3, $4, $5)\<newline>           RETURNING handle, name, description, num_employees AS "numEmployees", logo_url AS "logoUrl"'',
              [JStr handle, nm, description, numEmployees, logoUrl]);
        res = Company_create db log handle nm description numEmployees logoUrl
    in (\<forall>found rest. db log q1 = Inr (found # rest) \<longrightarrow>
          res = (Inl (BadRequestError (''Duplicate company: '' @ handle)), log @ [q1])
          \<and> is_bad_request (BadRequestError (''Duplicate company: '' @ handle)))
       \<and> (db log q1 = Inr [] \<longrightarrow>
            snd res = log @ [q1, q2]
            \<and> (\<forall>company rest. db (log @ [q1]) q2 = Inr (company # rest) \<longrightarrow> fst res = Inr (JObj company)))
       \<and> ((\<exists>e. fst res = Inl e \<and> is_bad_request e) = (\<exists>found rest. db log q1 = Inr (found # rest))))\<close>
proof -
  let ?q1 = \<open>(''SELECT handle\<newline>           FROM companies\<newline>           WHERE handle = $1'', [JStr handle])\<close>
  show ?thesis
  proof (cases "db log ?q1")
    case (Inl msg)
    then show ?thesis
      by (simp add: Company_create_def db_query_def Let_def)
  next
    case (Inr rows)
    show ?thesis
    proof (cases rows)
      case Nil
      with Inr show ?thesis
        by (simp add: Company_create_def db_query_def Let_def split: sum.split list.split)
    next
      case (Cons found rest)
      with Inr show ?thesis
        by (simp add: Company_create_def db_query_def Let_def)
    qed
  qed
qed

theorem Company_create_duplicate_is_bad_request_witness:
  \<open>Company_create (scripted_store [Inr [[(''handle'', JStr ''new'')]]]) []
       ''new'' (JStr ''New'') (JStr ''New Description'') (JNum 1) (JStr ''http://new.img'')
     = (Inl (BadRequestError ''Duplicate company: new''),
        [(''SELECT handle\<newline>           FROM companies\<newline>           WHERE handle = $1'', [JStr ''new''])])
   \<and> Company_create
         (scripted_store
            [Inr [],
             Inr [[(''handle'', JStr ''new''), (''name'', JStr ''New''),
                   (''description'', JStr ''New Description''), (''numEmployees'', JNum 1),
                   (''logoUrl'', JStr ''http://new.img'')]]])
         [] ''new'' (JStr ''New'') (JStr ''New Description'') (JNum 1) (JStr ''http://new.img'')
     = (Inr (JObj [(''handle'', JStr ''new''), (''name'', JStr ''New''),
                   (''description'', JStr ''New Description''), (''numEmployees'', JNum 1),
                   (''logoUrl'', JStr ''http://new.img'')]),
        [(''SELECT handle\<newline>           FROM companies\<newline>           WHERE handle = $1'', [JStr ''new'']),
         (''INSERT INTO companies(\<newline>          handle,\<newline>          name,\<newline>          description,\<newline>          num_employees,\<newline>          logo_url)\<newline>           VALUES\<newline>             ($1, $2, $3, $4, $5)\<newline>           RETURNING handle, name, description, num_employees AS "numEmployees", logo_url AS "logoUrl"'',
          [JStr ''new'', JStr ''New'', JStr ''New Description'', JNum 1, JStr ''http://new.img''])])\<close>
  using Company_create_duplicate_is_bad_request [of "''new''" "JStr ''New''" "JStr ''New Description''"
      "JNum 1" "JStr ''http://new.img''" "scripted_store [Inr [[(''handle'', JStr ''new'')]]]" "[]"]
  by (simp add: Company_create_def db_query_def scripted_store_def)

text \<open>
  The claim as first stated has the duplicate failure distinct from the bad-request
  condition. It is a \<^verbatim>\<open>BadRequestError\<close>, as the docstring of \<^verbatim>\<open>create\<close> says.
\<close>

theorem Company_create_duplicate_counterexample:
  \<open>fst (Company_create (scripted_store [Inr [[(''handle'', JStr ''c1'')]]]) []
          ''c1'' (JStr ''C1'') (JStr ''Desc1'') (JNum 1) (JStr ''http://c1.img''))
     = Inl (BadRequestError ''Duplicate company: c1'')
   \<and> is_bad_request (BadRequestError ''Duplicate company: c1'')\<close>
  by (simp add: Company_create_def db_query_def scripted_store_def)

text \<open>
  Claim C9, as amended. \<^verbatim>\<open>remove\<close> executes the DELETE by handle, with
  \<^verbatim>\<open>RETURNING handle\<close>; it fails with the not-found error exactly when the store
  answers with no row, and otherwise returns \<^verbatim>\<open>undefined\<close>.
\<close>

theorem Company_remove_not_found:
  \<open>(let q = (''DELETE\<newline>           FROM companies\<newline>           WHERE handle = $1\<newline>           RETURNING handle'', [JStr handle]);
        res = Company_remove db log handle
    in snd res = log @ [q]
       \<and> (fst res = Inl (NotFoundError (''No company: '' @ handle))) = (db log q = Inr [])
       \<and> (case fst res of Inl e \<Rightarrow> is_not_found e | Inr v \<Rightarrow> False) = (db log q = Inr [])
       \<and> (\<forall>deleted rest. db log q = Inr (deleted # rest) \<longrightarrow> fst res = Inr JUndefined)
       \<and> (\<forall>msg. db log q = Inl msg \<longrightarrow> fst res = Inl (StoreError msg)))\<close>
proof -
  let ?q = \<open>(''DELETE\<newline>           FROM companies\<newline>           WHERE handle = $1\<newline>           RETURNING handle'', [JStr handle])\<close>
  show ?thesis
  proof (cases "db log ?q")
    case (Inl msg)
    then show ?thesis
      by (simp add: Company_remove_def db_query_def Let_def)
  next
    case (Inr rows)
    then show ?thesis
      by (cases rows) (simp_all add: Company_remove_def db_query_def Let_def)
  qed
qed

theorem Company_remove_not_found_witness:
  \<open>Company_remove (scripted_store [Inr []]) [] ''nope''
     = (Inl (NotFoundError ''No company: nope''),
        [(''DELETE\<newline>           FROM companies\<newline>           WHERE handle = $1\<newline>           RETURNING handle'', [JStr ''nope''])])
   \<and> Company_remove (scripted_store [Inr [[(''handle'', JStr ''c1'')]]]) [] ''c1''
     = (Inr JUndefined,
        [(''DELETE\<newline>           FROM companies\<newline>           WHERE handle = $1\<newline>           RETURNING handle'', [JStr ''c1''])])\<close>
  using Company_remove_not_found [of "''nope''" "scripted_store [Inr []]" "[]"]
    Company_remove_not_found [of "''c1''" "scripted_store [Inr [[(''handle'', JStr ''c1'')]]]" "[]"]
  by (simp add: Company_remove_def db_query_def scripted_store_def)

text \<open>
  The claim as first stated has \<^verbatim>\<open>remove\<close> return the deleted key. The key is what
  the DELETE statement returns to \<^verbatim>\<open>remove\<close>, which itself returns
  \<^verbatim>\<open>undefined\<close>, as its docstring says.
\<close>

theorem Company_remove_returns_undefined_counterexample:
  \<open>fst (Company_remove (scripted_store [Inr [[(''handle'', JStr ''c1'')]]]) [] ''c1'') = Inr JUndefined
   \<and> fst (Company_remove (scripted_store [Inr [[(''handle'', JStr ''c1'')]]]) [] ''c1'') \<noteq> Inr (JStr ''c1'')
   \<and> fst (Company_remove (scripted_store [Inr [[(''handle'', JStr ''c1'')]]]) [] ''c1'')
       \<noteq> Inr (JObj [(''handle'', JStr ''c1'')])\<close>
  by (simp add: Company_remove_def db_query_def scripted_store_def)

end
